theory Spec2Isabelle
  imports Complex_Main "HOL-Library.Sublist"
begin

section \<open>Strings and numbers of the source\<close>

text \<open>
  A Python \<open>str\<close> is a sequence of Unicode code points. Two of the crisis phrases
  contain U+2019 (a typographic apostrophe), which is no 8-bit character, so a string
  is a list of code points here. \<open>str\<close> reads an ASCII literal.
\<close>

type_synonym pystr = "nat list"

definition str :: "string \<Rightarrow> pystr" where
  "str s = map of_char s"

text \<open>
  \<open>s.lower()\<close>: the letters A to Z move to a to z. Python also folds the cased
  letters beyond ASCII; the model leaves every other code point as it is.
\<close>

definition lower_cp :: "nat \<Rightarrow> nat" where
  "lower_cp c = (if 65 \<le> c \<and> c \<le> 90 then c + 32 else c)"

definition py_lower :: "pystr \<Rightarrow> pystr" where
  "py_lower s = map lower_cp s"

text \<open>
  \<open>w in t\<close> on strings is \<^const>\<open>sublist\<close>: \<open>w\<close> occurs in \<open>t\<close> as a contiguous run.
  The reading of "occurs case-insensitively" used by the properties below lowers both
  sides first.
\<close>

definition ci_contains :: "pystr \<Rightarrow> pystr \<Rightarrow> bool" where
  "ci_contains w t = sublist (py_lower w) (py_lower t)"

text \<open>
  A Python \<open>float\<close> is modelled by the real number it denotes, and arithmetic on
  floats by exact arithmetic. A comparison of two floats is exact. The literal
  \<open>0.85\<close> denotes the largest float below 85/100, so a float is above the literal
  exactly when, as a real number, it is above 85/100. A sum of three or more floats is
  rounded after each addition in the program and not here, so nothing below rests on
  the order in which \<open>sum\<close> adds.

  \<open>round(x, 2)\<close> rounds to the nearest hundredth, a tie going to the even one.
\<close>

definition round_half_even :: "real \<Rightarrow> int" where
  "round_half_even x =
     (let f = \<lfloor>x\<rfloor>; r = x - of_int f
      in if r < 1 / 2 then f else if 1 / 2 < r then f + 1
         else if even f then f else f + 1)"

definition round2 :: "real \<Rightarrow> real" where
  "round2 x = of_int (round_half_even (x * 100)) / 100"

section \<open>Data model\<close>

text \<open>A \<open>datetime\<close>: its calendar date and the microsecond of the day.\<close>

record datetime =
  dt_year :: nat
  dt_month :: nat
  dt_day :: nat
  dt_micros :: nat

text \<open>A stored timestamp is a \<open>datetime\<close> or, from another writer, a string.\<close>

datatype timestamp = TDatetime datetime | TString pystr

text \<open>One element of a classifier's output: \<open>{'label': ..., 'score': ...}\<close>.\<close>

record classification =
  label :: pystr
  score :: real

text \<open>
  The handlers answer \<open>jsonify({"error": msg}), 400\<close> or, from the catch-all
  \<open>except Exception as e\<close>, \<open>jsonify({"error": str(e)}), 500\<close>.
\<close>

datatype http_error = Error400 pystr | Error500 pystr

text \<open>A document of \<open>user_emergency_settings\<close>; \<open>.get("code_word")\<close> may find no field.\<close>

record emergency_settings =
  code_word :: "pystr option"
  emergency_contact :: pystr
  updated_at :: datetime

text \<open>
  A document of \<open>mood_entries\<close>. The trend computation reads \<open>timestamp\<close>,
  \<open>emotion\<close> and \<open>risk_score\<close> as fields that may be missing.
\<close>

record mood_entry =
  me_user_id :: pystr
  me_text :: pystr
  me_emotion :: "pystr option"
  me_confidence :: real
  me_crisis :: bool
  me_timestamp :: "timestamp option"
  me_risk_score :: "real option"
  me_risk_label :: pystr
  me_trigger_emergency :: bool

text \<open>A document of \<open>user_checkins/<user>/entries\<close>.\<close>

record checkin_entry =
  ce_slider_value :: real
  ce_tags :: "pystr list"
  ce_note :: pystr
  ce_timestamp :: datetime

text \<open>A document of \<open>visual_mood_entries\<close>.\<close>

record visual_entry =
  ve_user_id :: pystr
  ve_emotion :: pystr
  ve_confidence :: "real option"
  ve_timestamp :: datetime

text \<open>
  The Firestore collections the handlers read and write. A collection that is only
  appended to and queried is the list of its documents.
\<close>

record db =
  user_emergency_settings :: "pystr \<rightharpoonup> emergency_settings"
  mood_entries :: "mood_entry list"
  visual_mood_entries :: "visual_entry list"
  user_checkins :: "pystr \<Rightarrow> checkin_entry list"

text \<open>
  What the handlers call and do not define: the two classifier pipelines (an \<open>Inl\<close> is
  a raised exception, carrying \<open>str(e)\<close>), \<open>datetime.fromisoformat\<close>, and the state of
  the store (\<open>Some msg\<close>: every call to it raises with that message).
\<close>

record env =
  emotion_classifier :: "pystr \<Rightarrow> pystr + classification"
  risk_classifier :: "pystr \<Rightarrow> pystr + classification"
  fromisoformat :: "pystr \<Rightarrow> pystr + datetime"
  store_error :: "pystr option"

section \<open>Crisis keywords\<close>

definition apostrophe :: pystr where
  "apostrophe = [8217]"

definition crisis_keywords :: "pystr list" where
  "crisis_keywords =
     [str ''hopeless'', str ''worthless'', str ''suicidal'', str ''kill myself'',
      str ''give up'', str ''end it all'', str ''can'' @ [39] @ str ''t go on'',
      str ''no purpose'',
      str ''don'' @ apostrophe @ str ''t want to be here'',
      str ''everything is meaningless'',
      str ''better off without me'', str ''I want to disappear'',
      str ''I hate living'', str ''I'' @ apostrophe @ str ''m done with life'',
      str ''I want it to end'']"

section \<open>analyze\_mood\<close>

text \<open>
  The JSON body of a request is a record of the fields the handler reads, a field
  being \<open>None\<close> when its key is missing; no body at all is \<open>None\<close>. The handler's
  answer is paired with the store it leaves.
\<close>

record analyze_request =
  ar_text :: "pystr option"
  ar_user_id :: "pystr option"

record analysis =
  an_emotion :: pystr
  an_confidence :: real
  an_crisis :: bool
  an_risk_score :: real
  an_risk_label :: pystr
  an_trigger_emergency :: bool
  an_message :: pystr

text \<open>\<open>any(word in user_text.lower() for word in crisis_keywords)\<close>\<close>

definition keyword_crisis :: "pystr \<Rightarrow> bool" where
  "keyword_crisis user_text =
     list_ex (\<lambda>word. sublist word (py_lower user_text)) crisis_keywords"

text \<open>\<open>risk_label in {"sadness", "anger", "fear"} and risk_score > 0.85\<close>\<close>

definition ai_crisis :: "pystr \<Rightarrow> real \<Rightarrow> bool" where
  "ai_crisis risk_label risk_score \<longleftrightarrow>
     risk_label \<in> {str ''sadness'', str ''anger'', str ''fear''} \<and> 85 / 100 < risk_score"

text \<open>The lookup of the user's settings and the code-word test.\<close>

definition emergency_check :: "db \<Rightarrow> pystr \<Rightarrow> pystr \<Rightarrow> bool" where
  "emergency_check d uid user_text =
     (case user_emergency_settings d uid of
        None \<Rightarrow> False
      | Some user_settings \<Rightarrow>
          (case code_word user_settings of
             None \<Rightarrow> False
           | Some cw \<Rightarrow> cw \<noteq> [] \<and> sublist cw (py_lower user_text)))"

definition analyze_mood ::
  "env \<Rightarrow> datetime \<Rightarrow> analyze_request option \<Rightarrow> db \<Rightarrow> (http_error + analysis) \<times> db" where
  "analyze_mood e now data d =
     (case data of
        None \<Rightarrow> (Inl (Error400 (str ''Missing text or user_id'')), d)
      | Some r \<Rightarrow>
     (case ar_text r of
        None \<Rightarrow> (Inl (Error400 (str ''Missing text or user_id'')), d)
      | Some user_text \<Rightarrow>
     (case ar_user_id r of
        None \<Rightarrow> (Inl (Error400 (str ''Missing text or user_id'')), d)
      | Some uid \<Rightarrow>
     (case emotion_classifier e user_text of
        Inl msg \<Rightarrow> (Inl (Error500 msg), d)
      | Inr result \<Rightarrow>
     (case risk_classifier e user_text of
        Inl msg \<Rightarrow> (Inl (Error500 msg), d)
      | Inr risk_result \<Rightarrow>
     (case store_error e of
        Some msg \<Rightarrow> (Inl (Error500 msg), d)
      | None \<Rightarrow>
          (let emotion = label result;
               confidence = round2 (score result);
               risk_label = py_lower (label risk_result);
               risk_score = score risk_result;
               crisis_detected =
                 (keyword_crisis user_text \<or> ai_crisis risk_label risk_score);
               trigger_emergency = emergency_check d uid user_text
           in (Inr \<lparr>an_emotion = emotion, an_confidence = confidence,
                     an_crisis = crisis_detected,
                     an_risk_score = round2 risk_score, an_risk_label = risk_label,
                     an_trigger_emergency = trigger_emergency,
                     an_message = str ''Entry saved to Firebase successfully''\<rparr>,
               d\<lparr>mood_entries := mood_entries d @
                    [\<lparr>me_user_id = uid, me_text = user_text,
                      me_emotion = Some emotion, me_confidence = confidence,
                      me_crisis = crisis_detected,
                      me_timestamp = Some (TDatetime now),
                      me_risk_score = Some (round2 risk_score),
                      me_risk_label = risk_label,
                      me_trigger_emergency = trigger_emergency\<rparr>]\<rparr>))))))))"

section \<open>set\_emergency\_code\<close>

record emergency_request =
  er_user_id :: "pystr option"
  er_code_word :: "pystr option"
  er_emergency_contact :: "pystr option"

definition set_emergency_code ::
  "env \<Rightarrow> datetime \<Rightarrow> emergency_request option \<Rightarrow> db \<Rightarrow> (http_error + pystr) \<times> db" where
  "set_emergency_code e now data d =
     (case data of
        None \<Rightarrow> (Inl (Error400 (str ''Missing fields'')), d)
      | Some r \<Rightarrow>
     (case er_user_id r of
        None \<Rightarrow> (Inl (Error400 (str ''Missing fields'')), d)
      | Some uid \<Rightarrow>
     (case er_code_word r of
        None \<Rightarrow> (Inl (Error400 (str ''Missing fields'')), d)
      | Some cw \<Rightarrow>
     (case er_emergency_contact r of
        None \<Rightarrow> (Inl (Error400 (str ''Missing fields'')), d)
      | Some contact \<Rightarrow>
     (case store_error e of
        Some msg \<Rightarrow> (Inl (Error500 msg), d)
      | None \<Rightarrow>
          (Inr (str ''Emergency code and contact saved successfully.''),
           d\<lparr>user_emergency_settings := (user_emergency_settings d)
                (uid \<mapsto> \<lparr>code_word = Some (py_lower cw),
                          emergency_contact = contact, updated_at = now\<rparr>)\<rparr>))))))"

section \<open>get\_mood\_trends\<close>

text \<open>
  \<open>to_date\<close> renders the calendar date of a timestamp with \<open>strftime('%Y-%m-%d')\<close>;
  the key is kept as the three numbers that string shows. A string timestamp goes
  through \<open>datetime.fromisoformat\<close> first, which raises on a malformed one.
\<close>

type_synonym date_key = "nat \<times> nat \<times> nat"

definition to_date :: "env \<Rightarrow> timestamp \<Rightarrow> pystr + date_key" where
  "to_date e ts =
     (case ts of
        TDatetime dt \<Rightarrow> Inr (dt_year dt, dt_month dt, dt_day dt)
      | TString s \<Rightarrow>
          (case fromisoformat e s of
             Inl msg \<Rightarrow> Inl msg
           | Inr dt \<Rightarrow> Inr (dt_year dt, dt_month dt, dt_day dt)))"

text \<open>The pair \<open>{"emotion": ..., "risk_score": ...}\<close> kept of each entry.\<close>

record trend_item =
  ti_emotion :: "pystr option"
  ti_risk_score :: real

definition item_of :: "mood_entry \<Rightarrow> trend_item" where
  "item_of doc =
     \<lparr>ti_emotion = me_emotion doc,
      ti_risk_score = (case me_risk_score doc of None \<Rightarrow> 0 | Some r \<Rightarrow> r)\<rparr>"

text \<open>
  \<open>grouped_data[date_key].append(item)\<close> on a \<open>defaultdict(list)\<close>: a dictionary
  keeps its keys in the order of their first insertion.
\<close>

fun append_group :: "'k \<Rightarrow> 'v \<Rightarrow> ('k \<times> 'v list) list \<Rightarrow> ('k \<times> 'v list) list" where
  "append_group k v [] = [(k, [v])]"
| "append_group k v ((k', vs) # g) =
     (if k = k' then (k', vs @ [v]) # g else (k', vs) # append_group k v g)"

text \<open>The first loop: entries with no timestamp are skipped, a raised exception ends it.\<close>

fun group_entries ::
  "env \<Rightarrow> mood_entry list \<Rightarrow> (date_key \<times> trend_item list) list \<Rightarrow>
   pystr + (date_key \<times> trend_item list) list" where
  "group_entries e [] g = Inr g"
| "group_entries e (doc # rest) g =
     (case me_timestamp doc of
        None \<Rightarrow> group_entries e rest g
      | Some ts \<Rightarrow>
          (case to_date e ts of
             Inl msg \<Rightarrow> Inl msg
           | Inr k \<Rightarrow> group_entries e rest (append_group k (item_of doc) g)))"

text \<open>
  \<open>statistics.stdev\<close>: the square root of the sample variance; it raises
  \<open>StatisticsError\<close> on fewer than two values.
\<close>

definition mean :: "real list \<Rightarrow> real" where
  "mean xs = sum_list xs / real (length xs)"

definition sample_stdev :: "real list \<Rightarrow> real" where
  "sample_stdev xs =
     sqrt (sum_list (map (\<lambda>x. (x - mean xs)\<^sup>2) xs) / real (length xs - 1))"

definition stdev :: "real list \<Rightarrow> pystr + real" where
  "stdev xs =
     (if length xs < 2 then Inl (str ''stdev requires at least two data points'')
      else Inr (sample_stdev xs))"

text \<open>\<open>dict(Counter(emotions))\<close>\<close>

fun count_add :: "'k \<Rightarrow> ('k \<times> nat) list \<Rightarrow> ('k \<times> nat) list" where
  "count_add k [] = [(k, 1)]"
| "count_add k ((k', n) # c) =
     (if k = k' then (k', n + 1) # c else (k', n) # count_add k c)"

definition counter :: "'k list \<Rightarrow> ('k \<times> nat) list" where
  "counter xs = fold count_add xs []"

record daily_trend =
  average_risk_score :: real
  emotion_distribution :: "(pystr \<times> nat) list"
  mood_swing :: bool

text \<open>The body of the second loop, for the entries of one date.\<close>

definition mood_swing_of :: "real list \<Rightarrow> pystr + bool" where
  "mood_swing_of risk_scores =
     (if 2 \<le> length risk_scores
      then (case stdev risk_scores of
              Inl msg \<Rightarrow> Inl msg
            | Inr s \<Rightarrow> Inr (2 < round2 s))
      else Inr False)"

definition emotions_of :: "trend_item list \<Rightarrow> pystr list" where
  "emotions_of entries =
     concat (map (\<lambda>entry. case ti_emotion entry of
                             None \<Rightarrow> [] | Some em \<Rightarrow> if em = [] then [] else [em]) entries)"

definition average_risk_of :: "real list \<Rightarrow> real" where
  "average_risk_of risk_scores =
     (if risk_scores \<noteq> []
      then round2 (sum_list risk_scores / real (length risk_scores)) else 0)"

definition trend_of :: "trend_item list \<Rightarrow> pystr + daily_trend" where
  "trend_of entries =
     (let risk_scores = map ti_risk_score entries;
          emotions = emotions_of entries
      in case mood_swing_of risk_scores of
           Inl msg \<Rightarrow> Inl msg
         | Inr swing \<Rightarrow>
             Inr \<lparr>average_risk_score = average_risk_of risk_scores,
                  emotion_distribution = counter emotions,
                  mood_swing = swing\<rparr>)"

fun build_trends ::
  "(date_key \<times> trend_item list) list \<Rightarrow> pystr + (date_key \<times> daily_trend) list" where
  "build_trends [] = Inr []"
| "build_trends ((date, entries) # g) =
     (case trend_of entries of
        Inl msg \<Rightarrow> Inl msg
      | Inr t \<Rightarrow>
          (case build_trends g of
             Inl msg \<Rightarrow> Inl msg
           | Inr ts \<Rightarrow> Inr ((date, t) # ts)))"

record trends_request =
  tr_user_id :: "pystr option"

record trends_response =
  trs_user_id :: pystr
  trs_trends :: "(date_key \<times> daily_trend) list"
  trs_message :: pystr

definition none_has_no_get :: pystr where
  "none_has_no_get =
     [39] @ str ''NoneType'' @ [39] @ str '' object has no attribute '' @
     [39] @ str ''get'' @ [39]"

definition get_mood_trends ::
  "env \<Rightarrow> trends_request option \<Rightarrow> db \<Rightarrow> http_error + trends_response" where
  "get_mood_trends e data d =
     (case data of
        None \<Rightarrow> Inl (Error500 none_has_no_get)
      | Some r \<Rightarrow>
     (case tr_user_id r of
        None \<Rightarrow> Inl (Error400 (str ''Missing user_id''))
      | Some uid \<Rightarrow>
          if uid = [] then Inl (Error400 (str ''Missing user_id''))
          else
     (case store_error e of
        Some msg \<Rightarrow> Inl (Error500 msg)
      | None \<Rightarrow>
     (case group_entries e (filter (\<lambda>doc. me_user_id doc = uid) (mood_entries d)) [] of
        Inl msg \<Rightarrow> Inl (Error500 msg)
      | Inr grouped_data \<Rightarrow>
     (case build_trends grouped_data of
        Inl msg \<Rightarrow> Inl (Error500 msg)
      | Inr trends \<Rightarrow>
          Inr \<lparr>trs_user_id = uid, trs_trends = trends,
               trs_message = str ''Mood trends calculated successfully''\<rparr>)))))"

section \<open>log\_visual\_emotion\<close>

record visual_request =
  vr_user_id :: "pystr option"
  vr_emotion :: "pystr option"
  vr_confidence :: "real option"

record visual_response =
  vs_message :: pystr
  vs_user_id :: pystr
  vs_emotion :: pystr
  vs_confidence :: "real option"

definition log_visual_emotion ::
  "env \<Rightarrow> datetime \<Rightarrow> visual_request option \<Rightarrow> db \<Rightarrow> (http_error + visual_response) \<times> db" where
  "log_visual_emotion e now data d =
     (case data of
        None \<Rightarrow> (Inl (Error400 (str ''Missing user_id or emotion'')), d)
      | Some r \<Rightarrow>
     (case vr_user_id r of
        None \<Rightarrow> (Inl (Error400 (str ''Missing user_id or emotion'')), d)
      | Some uid \<Rightarrow>
     (case vr_emotion r of
        None \<Rightarrow> (Inl (Error400 (str ''Missing user_id or emotion'')), d)
      | Some em \<Rightarrow>
     (case store_error e of
        Some msg \<Rightarrow> (Inl (Error500 msg), d)
      | None \<Rightarrow>
          (Inr \<lparr>vs_message = str ''Visual emotion logged successfully'',
                vs_user_id = uid, vs_emotion = em, vs_confidence = vr_confidence r\<rparr>,
           d\<lparr>visual_mood_entries := visual_mood_entries d @
                [\<lparr>ve_user_id = uid, ve_emotion = em,
                  ve_confidence = vr_confidence r, ve_timestamp = now\<rparr>]\<rparr>)))))"

section \<open>submit\_checkin\<close>

text \<open>
  The fields read with \<open>data.get\<close>. For \<open>user_id\<close>, \<open>slider_value\<close> and \<open>tags\<close>,
  \<open>None\<close> is a missing key or a JSON null; a missing \<open>tags\<close> reads as the empty
  list, a missing \<open>note\<close> as the empty string. The test
  \<open>not user_id or slider is None or not tags\<close> is read off the fields case by case:
  each of its three ways to hold gives the same answer.
\<close>

record checkin_request =
  cr_user_id :: "pystr option"
  cr_slider_value :: "real option"
  cr_tags :: "pystr list option"
  cr_note :: "pystr option"

definition submit_checkin ::
  "env \<Rightarrow> datetime \<Rightarrow> checkin_request option \<Rightarrow> db \<Rightarrow> (http_error + pystr) \<times> db" where
  "submit_checkin e now data d =
     (case data of
        None \<Rightarrow> (Inl (Error500 none_has_no_get), d)
      | Some r \<Rightarrow>
     (case cr_user_id r of
        None \<Rightarrow> (Inl (Error400 (str ''Missing required fields'')), d)
      | Some user_id \<Rightarrow>
     (case cr_slider_value r of
        None \<Rightarrow> (Inl (Error400 (str ''Missing required fields'')), d)
      | Some slider \<Rightarrow>
          (let tags = (case cr_tags r of None \<Rightarrow> [] | Some ts \<Rightarrow> ts);
               note = (case cr_note r of None \<Rightarrow> [] | Some n \<Rightarrow> n)
           in if user_id = [] \<or> tags = []
              then (Inl (Error400 (str ''Missing required fields'')), d)
              else
     (case store_error e of
        Some msg \<Rightarrow> (Inl (Error500 msg), d)
      | None \<Rightarrow>
          (Inr (str ''Check-in saved successfully''),
           d\<lparr>user_checkins := (user_checkins d)
                (user_id := user_checkins d user_id @
                   [\<lparr>ce_slider_value = slider, ce_tags = tags, ce_note = note,
                     ce_timestamp = now\<rparr>])\<rparr>))))))"

section \<open>The states the handlers can produce\<close>

text \<open>
  The store starts empty, and analyze\_mood, set\_emergency\_code, log\_visual\_emotion
  and submit\_checkin are its only writers; get\_mood\_trends only reads.
\<close>

definition db0 :: db where
  "db0 = \<lparr>user_emergency_settings = Map.empty, mood_entries = [],
          visual_mood_entries = [], user_checkins = (\<lambda>_. [])\<rparr>"

inductive reachable :: "db \<Rightarrow> bool" where
  reachable_init: "reachable db0"
| reachable_analyze: "reachable d \<Longrightarrow> reachable (snd (analyze_mood e now data d))"
| reachable_emergency:
    "reachable d \<Longrightarrow> reachable (snd (set_emergency_code e now data d))"
| reachable_visual: "reachable d \<Longrightarrow> reachable (snd (log_visual_emotion e now data d))"
| reachable_checkin: "reachable d \<Longrightarrow> reachable (snd (submit_checkin e now data d))"

section \<open>Notions the properties are stated with\<close>


text \<open>An entry as analyze\_mood writes it: a \<open>datetime\<close> stamp, a rounded risk score.\<close>

definition stored_by_analyze :: "mood_entry \<Rightarrow> bool" where
  "stored_by_analyze doc \<longleftrightarrow>
     (\<exists>dt. me_timestamp doc = Some (TDatetime dt)) \<and>
     (\<exists>x. me_risk_score doc = Some (round2 x))"

text \<open>
  The date group of a user's entries, told without the loop: the entries of that user
  whose timestamp falls on the date, and their risk scores (0 for a missing one).
\<close>

definition on_date :: "env \<Rightarrow> date_key \<Rightarrow> mood_entry \<Rightarrow> bool" where
  "on_date e k doc =
     (case me_timestamp doc of None \<Rightarrow> False | Some ts \<Rightarrow> to_date e ts = Inr k)"

definition entries_on :: "env \<Rightarrow> pystr \<Rightarrow> date_key \<Rightarrow> db \<Rightarrow> mood_entry list" where
  "entries_on e uid k d =
     filter (on_date e k) (filter (\<lambda>doc. me_user_id doc = uid) (mood_entries d))"

definition risk_scores_on :: "env \<Rightarrow> pystr \<Rightarrow> date_key \<Rightarrow> db \<Rightarrow> real list" where
  "risk_scores_on e uid k d =
     map (\<lambda>doc. case me_risk_score doc of None \<Rightarrow> 0 | Some x \<Rightarrow> x) (entries_on e uid k d)"

definition lookup_group :: "('k \<times> 'v list) list \<Rightarrow> 'k \<Rightarrow> 'v list" where
  "lookup_group g k = (case map_of g k of None \<Rightarrow> [] | Some vs \<Rightarrow> vs)"

section \<open>Sample requests, classifiers and stores\<close>

definition const_classifier :: "string \<Rightarrow> real \<Rightarrow> pystr \<Rightarrow> pystr + classification" where
  "const_classifier l s t = Inr \<lparr>label = str l, score = s\<rparr>"

definition noon :: datetime where
  "noon = \<lparr>dt_year = 2025, dt_month = 3, dt_day = 14, dt_micros = 43200000000\<rparr>"

definition env_risk :: "string \<Rightarrow> real \<Rightarrow> env" where
  "env_risk l s =
     \<lparr>emotion_classifier = const_classifier ''joy'' (60 / 100),
      risk_classifier = const_classifier l s,
      fromisoformat = (\<lambda>s. Inl (str ''Invalid isoformat string'')),
      store_error = None\<rparr>"

definition env_joy :: env where
  "env_joy =
     \<lparr>emotion_classifier = const_classifier ''joy'' (99 / 100),
      risk_classifier = const_classifier ''joy'' (99 / 100),
      fromisoformat = (\<lambda>s. Inl (str ''Invalid isoformat string'')),
      store_error = None\<rparr>"

definition env_timeout :: env where
  "env_timeout =
     \<lparr>emotion_classifier = (\<lambda>t. Inl (str ''Read timed out.'')),
      risk_classifier = (\<lambda>t. Inl (str ''Read timed out.'')),
      fromisoformat = (\<lambda>s. Inl (str ''Invalid isoformat string'')),
      store_error = None\<rparr>"

definition env_store_down :: env where
  "env_store_down =
     \<lparr>emotion_classifier = const_classifier ''joy'' (99 / 100),
      risk_classifier = const_classifier ''joy'' (99 / 100),
      fromisoformat = (\<lambda>s. Inl (str ''Invalid isoformat string'')),
      store_error = Some (str ''Read timed out.'')\<rparr>"

definition req_hate :: analyze_request where
  "req_hate = \<lparr>ar_text = Some (str ''I hate living''), ar_user_id = Some (str ''u1'')\<rparr>"

definition req_fine :: analyze_request where
  "req_fine = \<lparr>ar_text = Some (str ''a fine day''), ar_user_id = Some (str ''u1'')\<rparr>"


definition req_code :: emergency_request where
  "req_code =
     \<lparr>er_user_id = Some (str ''u1''), er_code_word = Some (str ''Pineapple''),
      er_emergency_contact = Some (str ''555-0100'')\<rparr>"

definition db_code :: db where
  "db_code = snd (set_emergency_code env_joy noon (Some req_code) db0)"

definition req_no_tags :: checkin_request where
  "req_no_tags =
     \<lparr>cr_user_id = Some (str ''u1''), cr_slider_value = Some 7,
      cr_tags = Some [], cr_note = Some (str ''ok'')\<rparr>"

definition req_zero :: checkin_request where
  "req_zero =
     \<lparr>cr_user_id = Some (str ''u1''), cr_slider_value = Some 0,
      cr_tags = Some [str ''tired''], cr_note = None\<rparr>"

definition entry_at :: "string \<Rightarrow> nat \<Rightarrow> real \<Rightarrow> mood_entry" where
  "entry_at uid day x =
     \<lparr>me_user_id = str uid, me_text = str ''note'', me_emotion = Some (str ''joy''),
      me_confidence = 1 / 2, me_crisis = False,
      me_timestamp =
        Some (TDatetime \<lparr>dt_year = 2025, dt_month = 3, dt_day = day, dt_micros = 0\<rparr>),
      me_risk_score = Some x, me_risk_label = str ''joy'', me_trigger_emergency = False\<rparr>"

definition db_week :: db where
  "db_week = db0\<lparr>mood_entries :=
     [entry_at ''u1'' 14 0, entry_at ''u1'' 15 (1 / 2), entry_at ''u1'' 14 3,
      entry_at ''u2'' 14 1, entry_at ''u1'' 14 6]\<rparr>"

definition req_u1 :: trends_request where
  "req_u1 = \<lparr>tr_user_id = Some (str ''u1'')\<rparr>"

text \<open>The store after one analysis of a text whose risk score is 0.849.\<close>

definition db_one :: db where
  "db_one = snd (analyze_mood (env_risk ''sadness'' (849 / 1000)) noon (Some req_fine) db0)"

definition entry_one :: mood_entry where
  "entry_one =
     \<lparr>me_user_id = str ''u1'', me_text = str ''a fine day'',
      me_emotion = Some (str ''joy''), me_confidence = round2 (60 / 100),
      me_crisis = False, me_timestamp = Some (TDatetime noon),
      me_risk_score = Some (round2 (849 / 1000)), me_risk_label = str ''sadness'',
      me_trigger_emergency = False\<rparr>"

section \<open>Strings and rounding\<close>

lemma lower_cp_idem: "lower_cp (lower_cp c) = lower_cp c"
  by (simp add: lower_cp_def)

lemma py_lower_idem: "py_lower (py_lower s) = py_lower s"
  by (simp add: py_lower_def lower_cp_idem)

lemma py_lower_Nil_iff: "py_lower s = [] \<longleftrightarrow> s = []"
  by (simp add: py_lower_def)

lemma ci_contains_lowered: "ci_contains (py_lower w) t = ci_contains w t"
  by (simp add: ci_contains_def py_lower_idem)

lemma py_lower_sadness: "py_lower (str ''sadness'') = str ''sadness''"
  by (simp add: py_lower_def lower_cp_def str_def)

lemma keyword_crisis_fine: "keyword_crisis (str ''a fine day'') = False"
  by (simp add: keyword_crisis_def crisis_keywords_def apostrophe_def str_def
      py_lower_def lower_cp_def sublist_code prefix_code)

lemma round_half_even_of_int: "round_half_even (of_int n) = n"
  by (simp add: round_half_even_def)

lemma round2_idem: "round2 (round2 x) = round2 x"
  by (simp add: round2_def round_half_even_of_int)

lemma round2_849: "round2 (849 / 1000) = 85 / 100"
  by (simp add: round2_def round_half_even_def Let_def)

lemma round2_851: "round2 (851 / 1000) = 85 / 100"
  by (simp add: round2_def round_half_even_def Let_def)

lemma round2_3: "round2 3 = 3"
  by (simp add: round2_def round_half_even_def Let_def)

lemma round2_half: "round2 (1 / 2) = 1 / 2"
  by (simp add: round2_def round_half_even_def Let_def)

lemma sqrt_9: "sqrt 9 = 3"
  by (rule real_sqrt_unique) simp_all

lemma sample_stdev_036: "sample_stdev [0, 3, 6] = 3"
  by (simp add: sample_stdev_def mean_def sqrt_9)

section \<open>analyze\_mood: the crisis decision\<close>

text \<open>The answer and the stored entry of a call whose classifiers and store answer.\<close>

lemma analyze_mood_success:
  assumes "ar_text r = Some user_text" and "ar_user_id r = Some uid"
    and "emotion_classifier e user_text = Inr result"
    and "risk_classifier e user_text = Inr risk_result"
    and "store_error e = None"
  shows "analyze_mood e now (Some r) d =
     (Inr \<lparr>an_emotion = label result, an_confidence = round2 (score result),
           an_crisis = (keyword_crisis user_text \<or>
              ai_crisis (py_lower (label risk_result)) (score risk_result)),
           an_risk_score = round2 (score risk_result),
           an_risk_label = py_lower (label risk_result),
           an_trigger_emergency = emergency_check d uid user_text,
           an_message = str ''Entry saved to Firebase successfully''\<rparr>,
      d\<lparr>mood_entries := mood_entries d @
           [\<lparr>me_user_id = uid, me_text = user_text,
             me_emotion = Some (label result), me_confidence = round2 (score result),
             me_crisis = (keyword_crisis user_text \<or>
                ai_crisis (py_lower (label risk_result)) (score risk_result)),
             me_timestamp = Some (TDatetime now),
             me_risk_score = Some (round2 (score risk_result)),
             me_risk_label = py_lower (label risk_result),
             me_trigger_emergency = emergency_check d uid user_text\<rparr>]\<rparr>)"
  using assms by (simp add: analyze_mood_def Let_def)

text \<open>
  A phrase written in lower case is found in every text that contains it in any case.
\<close>

lemma keyword_crisis_lowered_phrase:
  assumes "w \<in> set crisis_keywords" and "py_lower w = w" and "ci_contains w user_text"
  shows "keyword_crisis user_text"
  using assms by (auto simp: keyword_crisis_def list_ex_iff ci_contains_def)

lemma keyword_crisis_end_it_all: "keyword_crisis (str ''I want to end it all'')"
  by (simp add: keyword_crisis_def crisis_keywords_def apostrophe_def str_def
      py_lower_def lower_cp_def sublist_code prefix_code)

text \<open>
  C1. A text that contains a crisis phrase, compared case-insensitively, has
  \<open>crisis = true\<close> whatever the classifiers say. The code lowers the text and looks
  for each phrase as it is written, and four phrases are written with a capital I.
  The text \<open>I hate living\<close> is one of the phrases; with classifiers that answer joy,
  the crisis flag of the answer is false.
\<close>

theorem analyze_mood_capital_phrase_missed:
  "str ''I hate living'' \<in> set crisis_keywords \<and>
   ci_contains (str ''I hate living'') (str ''I hate living'') \<and>
   map_sum id an_crisis (fst (analyze_mood env_joy noon (Some req_hate) db0)) = Inr False"
  by (simp add: analyze_mood_def env_joy_def req_hate_def const_classifier_def
      keyword_crisis_def ai_crisis_def crisis_keywords_def apostrophe_def str_def
      py_lower_def lower_cp_def ci_contains_def sublist_code prefix_code Let_def)

text \<open>
  C2. When the classifiers and the store answer, the call returns an analysis, and the
  stored entry carries the same crisis flag. If the lowered risk label is sadness,
  anger or fear and the risk score is above 0.85, the flag is true. If the risk score
  is 0.85 (or any score not above it), the flag is the result of the keyword check
  alone.
\<close>

theorem analyze_mood_model_check:
  assumes "ar_text r = Some user_text" and "ar_user_id r = Some uid"
    and "emotion_classifier e user_text = Inr result"
    and "risk_classifier e user_text = Inr risk_result"
    and "store_error e = None"
  shows "\<exists>a d'. analyze_mood e now (Some r) d = (Inr a, d') \<and>
           me_crisis (last (mood_entries d')) = an_crisis a \<and>
           (py_lower (label risk_result) \<in> {str ''sadness'', str ''anger'', str ''fear''} \<and>
            85 / 100 < score risk_result \<longrightarrow> an_crisis a) \<and>
           (score risk_result \<le> 85 / 100 \<longrightarrow> an_crisis a = keyword_crisis user_text)"
  unfolding analyze_mood_success [OF assms]
  by (simp add: ai_crisis_def)

theorem analyze_mood_model_check_witness:
  "map_sum id an_crisis
     (fst (analyze_mood (env_risk ''Fear'' (86 / 100)) noon (Some req_fine) db0)) = Inr True \<and>
   map_sum id an_crisis
     (fst (analyze_mood (env_risk ''Fear'' (85 / 100)) noon (Some req_fine) db0)) = Inr False"
proof -
  have t: "ar_text req_fine = Some (str ''a fine day'')"
    and u: "ar_user_id req_fine = Some (str ''u1'')"
    by (simp_all add: req_fine_def)
  have em: "emotion_classifier (env_risk ''Fear'' s) (str ''a fine day'') =
      Inr \<lparr>label = str ''joy'', score = 60 / 100\<rparr>" for s
    by (simp add: env_risk_def const_classifier_def)
  have ri: "risk_classifier (env_risk ''Fear'' s) (str ''a fine day'') =
      Inr \<lparr>label = str ''Fear'', score = s\<rparr>" for s
    by (simp add: env_risk_def const_classifier_def)
  have st: "store_error (env_risk ''Fear'' s) = None" for s
    by (simp add: env_risk_def)
  have l: "py_lower (label \<lparr>label = str ''Fear'', score = s\<rparr>)
      \<in> {str ''sadness'', str ''anger'', str ''fear''}" for s :: real
    by (simp add: py_lower_def lower_cp_def str_def)
  from l analyze_mood_model_check [OF t u em ri st, of "86 / 100" noon db0]
  have hi: "map_sum id an_crisis
      (fst (analyze_mood (env_risk ''Fear'' (86 / 100)) noon (Some req_fine) db0)) = Inr True"
    by auto
  from l analyze_mood_model_check [OF t u em ri st, of "85 / 100" noon db0]
  have eq: "map_sum id an_crisis
      (fst (analyze_mood (env_risk ''Fear'' (85 / 100)) noon (Some req_fine) db0)) = Inr False"
    by (auto simp: keyword_crisis_fine)
  from hi eq show ?thesis by simp
qed

text \<open>
  C9. The model check reads the unrounded risk score, the answer and the stored entry
  carry the rounded one: risk scores 0.849 and 0.851 with the label sadness are both
  stored and returned as 0.85, the first without and the second with the crisis flag.
\<close>

theorem analyze_mood_same_stored_score_different_crisis:
  "map_sum id (\<lambda>a. (an_risk_label a, an_risk_score a, an_crisis a))
     (fst (analyze_mood (env_risk ''sadness'' (849 / 1000)) noon (Some req_fine) db0))
     = Inr (str ''sadness'', 85 / 100, False) \<and>
   map_sum id (\<lambda>a. (an_risk_label a, an_risk_score a, an_crisis a))
     (fst (analyze_mood (env_risk ''sadness'' (851 / 1000)) noon (Some req_fine) db0))
     = Inr (str ''sadness'', 85 / 100, True) \<and>
   map (\<lambda>m. (me_risk_label m, me_risk_score m, me_crisis m))
     (mood_entries
        (snd (analyze_mood (env_risk ''sadness'' (849 / 1000)) noon (Some req_fine) db0)))
     = [(str ''sadness'', Some (85 / 100), False)] \<and>
   map (\<lambda>m. (me_risk_label m, me_risk_score m, me_crisis m))
     (mood_entries
        (snd (analyze_mood (env_risk ''sadness'' (851 / 1000)) noon (Some req_fine) db0)))
     = [(str ''sadness'', Some (85 / 100), True)]"
  by (simp add: analyze_mood_def env_risk_def req_fine_def const_classifier_def Let_def
      keyword_crisis_fine ai_crisis_def round2_849 round2_851 py_lower_sadness db0_def)

section \<open>analyze\_mood: the emergency trigger\<close>





text \<open>What set\_emergency\_code stores for a user.\<close>

lemma set_emergency_code_stores:
  assumes "er_user_id q = Some uid" and "er_code_word q = Some cw"
    and "er_emergency_contact q = Some c" and "store_error e = None"
  shows "user_emergency_settings (snd (set_emergency_code e now (Some q) d)) uid =
     Some \<lparr>code_word = Some (py_lower cw), emergency_contact = c, updated_at = now\<rparr>"
  using assms by (simp add: set_emergency_code_def)





section \<open>analyze\_mood: a failing classifier\<close>

text \<open>
  C4, as the code has it. When a classifier call raises, the answer is the error of
  the catch-all handler, status 500 with the exception's message: the store is left as
  it was, and no crisis or trigger\_emergency value is returned.
\<close>

theorem analyze_mood_classifier_failure:
  assumes "ar_text r = Some user_text" and "ar_user_id r = Some uid"
    and "emotion_classifier e user_text = Inl msg \<or>
         (\<exists>result. emotion_classifier e user_text = Inr result \<and>
            risk_classifier e user_text = Inl msg)"
  shows "analyze_mood e now (Some r) d = (Inl (Error500 msg), d)"
  using assms by (auto simp: analyze_mood_def)

theorem analyze_mood_classifier_failure_witness:
  "analyze_mood env_timeout noon (Some req_fine) db_code =
     (Inl (Error500 (str ''Read timed out.'')), db_code)"
proof -
  have t: "ar_text req_fine = Some (str ''a fine day'')"
    and u: "ar_user_id req_fine = Some (str ''u1'')"
    by (simp_all add: req_fine_def)
  have f: "emotion_classifier env_timeout (str ''a fine day'') = Inl (str ''Read timed out.'') \<or>
         (\<exists>result. emotion_classifier env_timeout (str ''a fine day'') = Inr result \<and>
            risk_classifier env_timeout (str ''a fine day'') = Inl (str ''Read timed out.''))"
    by (simp add: env_timeout_def)
  show ?thesis by (rule analyze_mood_classifier_failure [OF t u f])
qed

text \<open>
  The error is no kind of its own: a classifier that times out and a store that
  times out, with working classifiers, are answered alike.
\<close>

theorem analyze_mood_failure_kind_counterexample:
  "fst (analyze_mood env_timeout noon (Some req_fine) db0) =
     Inl (Error500 (str ''Read timed out.'')) \<and>
   fst (analyze_mood env_store_down noon (Some req_fine) db0) =
     fst (analyze_mood env_timeout noon (Some req_fine) db0)"
  by (simp add: analyze_mood_def env_timeout_def env_store_down_def req_fine_def
      const_classifier_def)

section \<open>submit\_checkin\<close>

text \<open>
  C8. A check-in whose tags are empty (or missing, which reads as empty) is answered
  with status 400, and the store is left as it was.
\<close>

theorem submit_checkin_empty_tags:
  assumes "cr_tags r = Some [] \<or> cr_tags r = None"
  shows "submit_checkin e now (Some r) d =
     (Inl (Error400 (str ''Missing required fields'')), d)"
  using assms by (auto simp: submit_checkin_def Let_def split: option.splits)

theorem submit_checkin_empty_tags_witness:
  "submit_checkin env_joy noon (Some req_no_tags) db0 =
     (Inl (Error400 (str ''Missing required fields'')), db0)"
proof -
  have "cr_tags req_no_tags = Some [] \<or> cr_tags req_no_tags = None"
    by (simp add: req_no_tags_def)
  then show ?thesis by (rule submit_checkin_empty_tags)
qed

text \<open>
  C10. A check-in is rejected as missing a required field exactly when its slider
  value is absent, its user id is absent or empty, or its tags are absent or empty.
  With slider value 0, a non-empty user id, non-empty tags and a store that answers,
  the entry is appended to the user's check-ins.
\<close>

theorem submit_checkin_slider_zero:
  "(fst (submit_checkin e now (Some r) d) = Inl (Error400 (str ''Missing required fields'')))
     = (cr_slider_value r = None \<or> cr_user_id r = None \<or> cr_user_id r = Some [] \<or>
        cr_tags r = None \<or> cr_tags r = Some []) \<and>
   (cr_slider_value r = Some 0 \<and> cr_user_id r = Some uid \<and> uid \<noteq> [] \<and>
    cr_tags r = Some tags \<and> tags \<noteq> [] \<and> store_error e = None \<longrightarrow>
    submit_checkin e now (Some r) d =
      (Inr (str ''Check-in saved successfully''),
       d\<lparr>user_checkins := (user_checkins d)
            (uid := user_checkins d uid @
               [\<lparr>ce_slider_value = 0, ce_tags = tags,
                 ce_note = (case cr_note r of None \<Rightarrow> [] | Some n \<Rightarrow> n),
                 ce_timestamp = now\<rparr>])\<rparr>))"
  by (auto simp: submit_checkin_def Let_def split: option.splits)

theorem submit_checkin_slider_zero_witness:
  "fst (submit_checkin env_joy noon (Some req_zero) db0) =
     Inr (str ''Check-in saved successfully'') \<and>
   user_checkins (snd (submit_checkin env_joy noon (Some req_zero) db0)) (str ''u1'') =
     [\<lparr>ce_slider_value = 0, ce_tags = [str ''tired''], ce_note = [], ce_timestamp = noon\<rparr>]"
proof -
  have h: "cr_slider_value req_zero = Some 0 \<and> cr_user_id req_zero = Some (str ''u1'') \<and>
      str ''u1'' \<noteq> [] \<and> cr_tags req_zero = Some [str ''tired''] \<and> [str ''tired''] \<noteq> [] \<and>
      store_error env_joy = None"
    by (simp add: req_zero_def env_joy_def str_def)
  from submit_checkin_slider_zero [of env_joy noon req_zero db0 "str ''u1''" "[str ''tired'']"] h
  have "submit_checkin env_joy noon (Some req_zero) db0 =
      (Inr (str ''Check-in saved successfully''),
       db0\<lparr>user_checkins := (user_checkins db0)
            (str ''u1'' := user_checkins db0 (str ''u1'') @
               [\<lparr>ce_slider_value = 0, ce_tags = [str ''tired''],
                 ce_note = (case cr_note req_zero of None \<Rightarrow> [] | Some n \<Rightarrow> n),
                 ce_timestamp = noon\<rparr>])\<rparr>)"
    by blast
  then show ?thesis by (simp add: db0_def req_zero_def)
qed

section \<open>get\_mood\_trends\<close>

subsection \<open>The grouping loop\<close>

lemma map_of_append_group:
  "map_of (append_group k v g) k' =
     (if k' = k then Some (lookup_group g k @ [v]) else map_of g k')"
  by (induction g) (auto simp: lookup_group_def)

lemma lookup_append_group:
  "lookup_group (append_group k v g) k' =
     (if k' = k then lookup_group g k @ [v] else lookup_group g k')"
  by (simp add: lookup_group_def map_of_append_group)

lemma keys_append_group: "fst ` set (append_group k v g) = insert k (fst ` set g)"
  by (induction g) force+

text \<open>The keys stay distinct, as the keys of a dictionary are.\<close>

lemma distinct_append_group:
  "distinct (map fst g) \<Longrightarrow> distinct (map fst (append_group k v g))"
proof (induction g)
  case Nil
  then show ?case by simp
next
  case (Cons p g)
  obtain k' vs where p: "p = (k', vs)" by (cases p)
  from Cons p have "k' \<notin> fst ` set (append_group k v g)" if "k \<noteq> k'"
    using that by (auto simp: keys_append_group)
  with Cons p show ?case by auto
qed

lemma group_entries_distinct:
  "group_entries e docs g = Inr g' \<Longrightarrow> distinct (map fst g) \<Longrightarrow> distinct (map fst g')"
proof (induction docs arbitrary: g)
  case Nil
  then show ?case by simp
next
  case (Cons doc rest)
  then show ?case
    by (auto simp: distinct_append_group split: option.splits sum.splits)
qed

text \<open>
  After the loop, the group of a date holds what it held before, followed by the
  items of the entries on that date, in their order; a date with no entry gets no group.
\<close>

lemma group_entries_lookup:
  "group_entries e docs g = Inr g' \<Longrightarrow>
   map_of g' k =
     (if filter (on_date e k) docs = [] then map_of g k
      else Some (lookup_group g k @ map item_of (filter (on_date e k) docs)))"
proof (induction docs arbitrary: g)
  case Nil
  then show ?case by simp
next
  case (Cons doc rest)
  show ?case
  proof (cases "me_timestamp doc")
    case None
    with Cons.prems have "group_entries e rest g = Inr g'" by simp
    moreover from None have "\<not> on_date e k doc" by (simp add: on_date_def)
    ultimately show ?thesis using Cons.IH [of g] by simp
  next
    case (Some ts)
    show ?thesis
    proof (cases "to_date e ts")
      case (Inl msg)
      with Some Cons.prems show ?thesis by simp
    next
      case (Inr k0)
      with Some Cons.prems
      have "group_entries e rest (append_group k0 (item_of doc) g) = Inr g'" by simp
      moreover from Some Inr have "on_date e k doc \<longleftrightarrow> k = k0"
        by (auto simp: on_date_def)
      ultimately show ?thesis
        using Cons.IH [of "append_group k0 (item_of doc) g"]
        by (simp add: map_of_append_group lookup_append_group)
    qed
  qed
qed

text \<open>The loop ends without an exception when every timestamp it meets has a date.\<close>

lemma group_entries_total:
  assumes "\<forall>doc \<in> set docs. \<forall>ts. me_timestamp doc = Some ts \<longrightarrow> (\<exists>k. to_date e ts = Inr k)"
  shows "\<exists>g'. group_entries e docs g = Inr g'"
  using assms
proof (induction docs arbitrary: g)
  case Nil
  then show ?case by simp
next
  case (Cons doc rest)
  show ?case
  proof (cases "me_timestamp doc")
    case None
    with Cons show ?thesis by simp
  next
    case (Some ts)
    with Cons.prems obtain k where "to_date e ts = Inr k" by auto
    with Some Cons show ?thesis by simp
  qed
qed

subsection \<open>The trend of one date\<close>

lemma mood_swing_of_eq:
  "mood_swing_of xs = Inr (2 \<le> length xs \<and> 2 < round2 (sample_stdev xs))"
  by (simp add: mood_swing_of_def stdev_def)

lemma trend_of_eq:
  "trend_of es =
     Inr \<lparr>average_risk_score = average_risk_of (map ti_risk_score es),
          emotion_distribution = counter (emotions_of es),
          mood_swing = (2 \<le> length es \<and> 2 < round2 (sample_stdev (map ti_risk_score es)))\<rparr>"
  by (simp add: trend_of_def mood_swing_of_eq Let_def)

lemma trend_of_items:
  "trend_of (map item_of docs) =
     Inr \<lparr>average_risk_score =
            average_risk_of
              (map (\<lambda>doc. case me_risk_score doc of None \<Rightarrow> 0 | Some x \<Rightarrow> x) docs),
          emotion_distribution = counter (emotions_of (map item_of docs)),
          mood_swing = (2 \<le> length docs \<and>
            2 < round2 (sample_stdev
                  (map (\<lambda>doc. case me_risk_score doc of None \<Rightarrow> 0 | Some x \<Rightarrow> x) docs)))\<rparr>"
  by (simp add: trend_of_eq comp_def item_of_def)

lemma build_trends_total: "\<exists>ts. build_trends g = Inr ts"
  by (induction g) (auto simp: trend_of_eq)

lemma build_trends_keys: "build_trends g = Inr ts \<Longrightarrow> map fst ts = map fst g"
  by (induction g arbitrary: ts) (auto split: sum.splits)

lemma build_trends_lookup:
  "build_trends g = Inr ts \<Longrightarrow> map_of ts k = Some t \<Longrightarrow>
   \<exists>es. map_of g k = Some es \<and> trend_of es = Inr t"
proof (induction g arbitrary: ts)
  case Nil
  then show ?case by simp
next
  case (Cons p g)
  obtain date entries where p: "p = (date, entries)" by (cases p)
  from Cons.prems(1) p obtain t0 ts0
    where t0: "trend_of entries = Inr t0" and ts0: "build_trends g = Inr ts0"
      and ts: "ts = (date, t0) # ts0"
    by (auto split: sum.splits)
  show ?case
  proof (cases "k = date")
    case True
    with Cons.prems(2) ts t0 p show ?thesis by simp
  next
    case False
    with Cons.prems(2) ts have "map_of ts0 k = Some t" by simp
    from Cons.IH [OF ts0 this] False p show ?thesis by simp
  qed
qed

subsection \<open>The handler\<close>

text \<open>
  A date of the answer is a date on which the user has entries, and its trend is the
  trend of those entries.
\<close>

lemma get_mood_trends_group:
  assumes "get_mood_trends e (Some r) d = Inr resp" and "tr_user_id r = Some uid"
    and "map_of (trs_trends resp) k = Some t"
  shows "entries_on e uid k d \<noteq> [] \<and> trend_of (map item_of (entries_on e uid k d)) = Inr t"
proof -
  let ?docs = "filter (\<lambda>doc. me_user_id doc = uid) (mood_entries d)"
  from assms(1,2) obtain g ts
    where g: "group_entries e ?docs [] = Inr g" and ts: "build_trends g = Inr ts"
      and resp: "trs_trends resp = ts"
    by (auto simp: get_mood_trends_def split: option.splits if_splits sum.splits)
  from assms(3) resp have "map_of ts k = Some t" by simp
  from build_trends_lookup [OF ts this] obtain es
    where es: "map_of g k = Some es" "trend_of es = Inr t" by blast
  from group_entries_lookup [OF g, of k] es show ?thesis
    by (auto simp: entries_on_def lookup_group_def split: if_splits)
qed

text \<open>The dates of the answer are distinct.\<close>

lemma get_mood_trends_distinct:
  assumes "get_mood_trends e (Some r) d = Inr resp"
  shows "distinct (map fst (trs_trends resp))"
proof -
  from assms obtain uid g ts
    where g: "group_entries e (filter (\<lambda>doc. me_user_id doc = uid) (mood_entries d)) [] = Inr g"
      and ts: "build_trends g = Inr ts" and resp: "trs_trends resp = ts"
    by (auto simp: get_mood_trends_def split: option.splits if_splits sum.splits)
  from group_entries_distinct [OF g] have "distinct (map fst g)" by simp
  with build_trends_keys [OF ts] resp show ?thesis by simp
qed

subsection \<open>Entries written by analyze\_mood\<close>

lemma analyze_mood_entries:
  "mood_entries (snd (analyze_mood e now data d)) = mood_entries d \<or>
   (\<exists>doc. stored_by_analyze doc \<and>
      mood_entries (snd (analyze_mood e now data d)) = mood_entries d @ [doc])"
  by (auto simp: analyze_mood_def Let_def stored_by_analyze_def
      split: option.splits sum.splits)

lemma set_emergency_code_entries:
  "mood_entries (snd (set_emergency_code e now data d)) = mood_entries d"
  by (simp add: set_emergency_code_def split: option.splits)

lemma log_visual_emotion_entries:
  "mood_entries (snd (log_visual_emotion e now data d)) = mood_entries d"
  by (simp add: log_visual_emotion_def split: option.splits)

lemma submit_checkin_entries:
  "mood_entries (snd (submit_checkin e now data d)) = mood_entries d"
  by (simp add: submit_checkin_def Let_def split: option.splits)

lemma reachable_stored_by_analyze:
  "reachable d \<Longrightarrow> \<forall>doc \<in> set (mood_entries d). stored_by_analyze doc"
proof (induction rule: reachable.induct)
  case reachable_init
  show ?case by (simp add: db0_def)
next
  case (reachable_analyze d e now data)
  with analyze_mood_entries [of e now data d] show ?case by auto
next
  case (reachable_emergency d e now data)
  then show ?case by (simp add: set_emergency_code_entries)
next
  case (reachable_visual d e now data)
  then show ?case by (simp add: log_visual_emotion_entries)
next
  case (reachable_checkin d e now data)
  then show ?case by (simp add: submit_checkin_entries)
qed

text \<open>
  On a store the handlers have produced, with the store answering, the trends of a
  user are computed: no exception ends the call.
\<close>

lemma get_mood_trends_reachable:
  assumes "reachable d" and "tr_user_id r = Some uid" and "uid \<noteq> []"
    and "store_error e = None"
  shows "\<exists>resp. get_mood_trends e (Some r) d = Inr resp"
proof -
  let ?docs = "filter (\<lambda>doc. me_user_id doc = uid) (mood_entries d)"
  have "\<forall>doc \<in> set ?docs. \<forall>ts. me_timestamp doc = Some ts \<longrightarrow> (\<exists>k. to_date e ts = Inr k)"
  proof (intro ballI allI impI)
    fix doc ts
    assume doc: "doc \<in> set ?docs" and ts: "me_timestamp doc = Some ts"
    from doc reachable_stored_by_analyze [OF assms(1)] have "stored_by_analyze doc"
      by simp
    with ts obtain dt where "ts = TDatetime dt"
      by (auto simp: stored_by_analyze_def)
    then show "\<exists>k. to_date e ts = Inr k" by (simp add: to_date_def)
  qed
  from group_entries_total [OF this] obtain g
    where g: "group_entries e ?docs [] = Inr g" by blast
  from build_trends_total obtain ts where ts: "build_trends g = Inr ts" by blast
  from assms(2-4) g ts show ?thesis by (simp add: get_mood_trends_def)
qed

subsection \<open>Mood swing and average of a date group\<close>

lemma entries_on_week_14:
  "entries_on env_joy (str ''u1'') (2025, 3, 14) db_week =
     [entry_at ''u1'' 14 0, entry_at ''u1'' 14 3, entry_at ''u1'' 14 6]"
  by (simp add: entries_on_def db_week_def entry_at_def on_date_def to_date_def str_def)

lemma entries_on_week_15:
  "entries_on env_joy (str ''u1'') (2025, 3, 15) db_week = [entry_at ''u1'' 15 (1 / 2)]"
  by (simp add: entries_on_def db_week_def entry_at_def on_date_def to_date_def str_def)

lemma get_mood_trends_week:
  "get_mood_trends env_joy (Some req_u1) db_week =
     Inr \<lparr>trs_user_id = str ''u1'',
          trs_trends =
            [((2025, 3, 14),
              \<lparr>average_risk_score = 3, emotion_distribution = [(str ''joy'', 3)],
               mood_swing = True\<rparr>),
             ((2025, 3, 15),
              \<lparr>average_risk_score = 1 / 2, emotion_distribution = [(str ''joy'', 1)],
               mood_swing = False\<rparr>)],
          trs_message = str ''Mood trends calculated successfully''\<rparr>"
proof -
  have g: "group_entries env_joy
      (filter (\<lambda>doc. me_user_id doc = str ''u1'') (mood_entries db_week)) [] =
      Inr [((2025, 3, 14),
            map item_of [entry_at ''u1'' 14 0, entry_at ''u1'' 14 3, entry_at ''u1'' 14 6]),
           ((2025, 3, 15), map item_of [entry_at ''u1'' 15 (1 / 2)])]"
    by (simp add: db_week_def entry_at_def to_date_def str_def)
  have t14: "trend_of
      (map item_of [entry_at ''u1'' 14 0, entry_at ''u1'' 14 3, entry_at ''u1'' 14 6]) =
      Inr \<lparr>average_risk_score = 3, emotion_distribution = [(str ''joy'', 3)],
           mood_swing = True\<rparr>"
    unfolding trend_of_items
    by (simp add: entry_at_def average_risk_of_def round2_3 sample_stdev_036 item_of_def
        emotions_of_def counter_def str_def)
  have t15: "trend_of (map item_of [entry_at ''u1'' 15 (1 / 2)]) =
      Inr \<lparr>average_risk_score = 1 / 2, emotion_distribution = [(str ''joy'', 1)],
           mood_swing = False\<rparr>"
    unfolding trend_of_items
    by (simp add: entry_at_def average_risk_of_def round2_half item_of_def
        emotions_of_def counter_def str_def)
  have u: "tr_user_id req_u1 = Some (str ''u1'')" "str ''u1'' \<noteq> []"
    "store_error env_joy = None"
    by (simp_all add: req_u1_def str_def env_joy_def)
  show ?thesis
    by (simp add: get_mood_trends_def u g t14 t15 del: list.map)
qed

text \<open>
  C5. For every date of the trends returned for a user, \<open>mood_swing\<close> is true exactly
  when the date has at least two risk scores and their sample standard deviation,
  rounded to two decimals, is above 2; on a date with exactly one entry it is false.
\<close>

theorem get_mood_trends_mood_swing:
  assumes "get_mood_trends e (Some r) d = Inr resp" and "tr_user_id r = Some uid"
    and "map_of (trs_trends resp) k = Some t"
  shows "mood_swing t =
           (2 \<le> length (risk_scores_on e uid k d) \<and>
            2 < round2 (sample_stdev (risk_scores_on e uid k d))) \<and>
         (length (entries_on e uid k d) = 1 \<longrightarrow> \<not> mood_swing t)"
proof -
  from get_mood_trends_group [OF assms]
  have "trend_of (map item_of (entries_on e uid k d)) = Inr t" by simp
  then have "mood_swing t =
      (2 \<le> length (risk_scores_on e uid k d) \<and>
       2 < round2 (sample_stdev (risk_scores_on e uid k d)))"
    unfolding trend_of_items by (auto simp: risk_scores_on_def)
  then show ?thesis by (simp add: risk_scores_on_def)
qed

theorem get_mood_trends_mood_swing_witness:
  "(\<exists>resp t. get_mood_trends env_joy (Some req_u1) db_week = Inr resp \<and>
      map_of (trs_trends resp) (2025, 3, 14) = Some t \<and> mood_swing t \<and>
      risk_scores_on env_joy (str ''u1'') (2025, 3, 14) db_week = [0, 3, 6]) \<and>
   (\<exists>resp t. get_mood_trends env_joy (Some req_u1) db_week = Inr resp \<and>
      map_of (trs_trends resp) (2025, 3, 15) = Some t \<and> \<not> mood_swing t \<and>
      length (entries_on env_joy (str ''u1'') (2025, 3, 15) db_week) = 1)"
proof -
  let ?t14 = "\<lparr>average_risk_score = 3, emotion_distribution = [(str ''joy'', 3)],
               mood_swing = True\<rparr>"
  let ?t15 = "\<lparr>average_risk_score = 1 / 2, emotion_distribution = [(str ''joy'', 1)],
               mood_swing = False\<rparr>"
  note g = get_mood_trends_week
  have u: "tr_user_id req_u1 = Some (str ''u1'')" by (simp add: req_u1_def)
  have m14: "map_of (trs_trends \<lparr>trs_user_id = str ''u1'',
          trs_trends = [((2025, 3, 14), ?t14), ((2025, 3, 15), ?t15)],
          trs_message = str ''Mood trends calculated successfully''\<rparr>) (2025, 3, 14) =
        Some ?t14"
    by simp
  have m15: "map_of (trs_trends \<lparr>trs_user_id = str ''u1'',
          trs_trends = [((2025, 3, 14), ?t14), ((2025, 3, 15), ?t15)],
          trs_message = str ''Mood trends calculated successfully''\<rparr>) (2025, 3, 15) =
        Some ?t15"
    by simp
  have s14: "risk_scores_on env_joy (str ''u1'') (2025, 3, 14) db_week = [0, 3, 6]"
    by (simp add: risk_scores_on_def entries_on_week_14) (simp add: entry_at_def)
  have l15: "length (entries_on env_joy (str ''u1'') (2025, 3, 15) db_week) = 1"
    by (simp add: entries_on_week_15)
  from get_mood_trends_mood_swing [OF g u m14] have a: "mood_swing ?t14"
    by (simp add: s14 sample_stdev_036 round2_3)
  from get_mood_trends_mood_swing [OF g u m15] l15 have b: "\<not> mood_swing ?t15"
    by blast
  from a b g m14 m15 s14 l15 show ?thesis by simp
qed

text \<open>
  C7. On a date with exactly one entry of the user, whose stored risk score is a value
  rounded to two decimals (as analyze\_mood stores it), the average risk score of the
  date is that stored risk score.
\<close>

theorem get_mood_trends_single_entry_average:
  assumes "get_mood_trends e (Some r) d = Inr resp" and "tr_user_id r = Some uid"
    and "map_of (trs_trends resp) k = Some t"
    and "entries_on e uid k d = [doc]"
    and "me_risk_score doc = Some (round2 x)"
  shows "Some (average_risk_score t) = me_risk_score doc"
proof -
  from get_mood_trends_group [OF assms(1-3)] assms(4)
  have "trend_of [item_of doc] = Inr t" by simp
  then have "average_risk_score t = average_risk_of [ti_risk_score (item_of doc)]"
    unfolding trend_of_eq by auto
  with assms(5) show ?thesis
    by (simp add: average_risk_of_def item_of_def round2_idem)
qed

lemma db_one_entries: "mood_entries db_one = [entry_one]"
  by (simp add: db_one_def analyze_mood_def env_risk_def req_fine_def const_classifier_def
      Let_def keyword_crisis_fine ai_crisis_def py_lower_sadness db0_def emergency_check_def
      entry_one_def)

theorem get_mood_trends_single_entry_average_witness:
  "\<exists>resp t. get_mood_trends env_joy (Some req_u1) db_one = Inr resp \<and>
     map_of (trs_trends resp) (2025, 3, 14) = Some t \<and>
     average_risk_score t = 85 / 100 \<and>
     map me_risk_score (entries_on env_joy (str ''u1'') (2025, 3, 14) db_one) =
       [Some (85 / 100)]"
proof -
  let ?t = "\<lparr>average_risk_score = 85 / 100, emotion_distribution = [(str ''joy'', 1)],
       mood_swing = False\<rparr>"
  let ?resp = "\<lparr>trs_user_id = str ''u1'', trs_trends = [((2025, 3, 14), ?t)],
       trs_message = str ''Mood trends calculated successfully''\<rparr>"
  have r': "round2 (17 / 20) = 17 / 20"
    by (simp add: round2_def round_half_even_def Let_def)
  have f: "me_user_id entry_one = str ''u1''"
    "me_timestamp entry_one = Some (TDatetime noon)"
    "me_risk_score entry_one = Some (round2 (849 / 1000))"
    "me_emotion entry_one = Some (str ''joy'')"
    by (simp_all add: entry_one_def)
  have en: "entries_on env_joy (str ''u1'') (2025, 3, 14) db_one = [entry_one]"
    by (simp add: entries_on_def db_one_entries on_date_def to_date_def noon_def f)
  have tr: "trend_of (map item_of [entry_one]) = Inr ?t"
    unfolding trend_of_items
    by (simp add: average_risk_of_def f round2_849 r' item_of_def emotions_of_def
        counter_def str_def)
  have u: "tr_user_id req_u1 = Some (str ''u1'')" "str ''u1'' \<noteq> []"
    "store_error env_joy = None"
    by (simp_all add: req_u1_def str_def env_joy_def)
  have gr: "group_entries env_joy
      (filter (\<lambda>doc. me_user_id doc = str ''u1'') (mood_entries db_one)) [] =
      Inr [((2025, 3, 14), map item_of [entry_one])]"
    by (simp add: db_one_entries to_date_def noon_def f)
  have g: "get_mood_trends env_joy (Some req_u1) db_one = Inr ?resp"
    by (simp add: get_mood_trends_def u gr tr del: list.map)
  have m: "map_of (trs_trends ?resp) (2025, 3, 14) = Some ?t" by simp
  from get_mood_trends_single_entry_average [OF g u(1) m en f(3)]
  have "average_risk_score ?t = 85 / 100" by (simp add: round2_849)
  with g m en show ?thesis by (simp add: round2_849 f)
qed

end
